theory Spec2Isabelle
  imports Main
begin

section \<open>The kernel adapter of the GPU kernel runner\<close>

text \<open>
  A shallow embedding of \<^verbatim>\<open>src/kernel_adapter.hpp\<close>: the base class
  \<^verbatim>\<open>kernel_adapter\<close> with its non-virtual methods
  \<^verbatim>\<open>marshal_kernel_arguments\<close> and \<^verbatim>\<open>make_launch_config\<close>, its
  default implementations of \<^verbatim>\<open>buffer_names\<close> and
  \<^verbatim>\<open>deduce_launch_config\<close>, and the free functions
  \<^verbatim>\<open>push_back_buffer\<close>, \<^verbatim>\<open>push_back_scalar\<close> and the two-direction
  \<^verbatim>\<open>buffer_names\<close>.

  C++ exceptions are values of the type \<open>error\<close>. A function that returns by value has a
  result of type \<open>error + 'a\<close>. A function that works on an accumulator passed by
  reference has a result of type \<open>(error \<times> acc) + acc\<close>: \<open>Inr\<close> carries the accumulator
  at the return, \<open>Inl\<close> the exception together with the accumulator as it is at the throw.
  Exhaustion of memory (\<^verbatim>\<open>std::bad_alloc\<close> from \<^verbatim>\<open>push_back\<close>) is not modelled.
\<close>

subsection \<open>Common types\<close>

text \<open>
  The header \<^verbatim>\<open>common_types.hpp\<close> is not among the sources. The enumerations and
  the accumulator below are taken from the way \<^verbatim>\<open>kernel_adapter.hpp\<close> uses them:
  \<^verbatim>\<open>execution_ecosystem_t::cuda\<close>, \<^verbatim>\<open>execution_ecosystem_t::opencl\<close>,
  \<^verbatim>\<open>parameter_direction_t::in\<close>, and the members \<^verbatim>\<open>pointers\<close> and
  \<^verbatim>\<open>sizes\<close> of \<^verbatim>\<open>marshalled_arguments_type\<close>, both used with
  \<^verbatim>\<open>push_back\<close>.
\<close>

type_synonym key = string

datatype execution_ecosystem = cuda | opencl

text \<open>
  Modelled from the spec: \<^verbatim>\<open>parameter_direction_t\<close>, declared in the absent
  \<^verbatim>\<open>common_types.hpp\<close>; "direction: one of {In, Out, InOut}".
\<close>

datatype parameter_direction = In | Out | InOut

datatype error =
    Out_of_range            \<comment> \<open>\<^verbatim>\<open>std::out_of_range\<close>, thrown by \<^verbatim>\<open>at()\<close> of a map\<close>
  | Bad_any_cast            \<comment> \<open>thrown by \<^verbatim>\<open>any_cast\<close>\<close>
  | Runtime_error string    \<comment> \<open>\<^verbatim>\<open>std::runtime_error\<close> with its message\<close>

text \<open>
  The pointers pushed are addresses of objects that live inside the execution context. An
  address is modelled by the place of the object: the map, the key and the member. The null
  pointer is \<open>None\<close>.
\<close>

datatype buffer_map_id = Device_side_inputs | Device_side_outputs

datatype address =
    Cuda_data_of buffer_map_id key
      \<comment> \<open>\<^verbatim>\<open>& buffer_map.at(name).cuda.data()\<close>\<close>
  | Opencl_of buffer_map_id key
      \<comment> \<open>\<^verbatim>\<open>& buffer_map.at(name).opencl\<close>\<close>
  | Scalar_of key
      \<comment> \<open>\<^verbatim>\<open>& any_cast<const Scalar&>(typed.at(name))\<close>\<close>

type_synonym pointer = "address option"

record marshalled_arguments =
  pointers :: "pointer list"
  sizes :: "nat list"

type_synonym marshalling_result = "(error \<times> marshalled_arguments) + marshalled_arguments"

subsection \<open>Type-erased scalars\<close>

text \<open>
  A C++ type, as far as \<^verbatim>\<open>push_back_scalar<Scalar>\<close> looks at it: its identity
  (what \<^verbatim>\<open>typeid\<close> compares) and its \<^verbatim>\<open>sizeof\<close>. The template argument
  \<^verbatim>\<open>Scalar\<close> becomes an ordinary argument of this type.
\<close>

datatype cxx_type = Cxx_type (type_name: string) (sizeof: nat)

text \<open>
  An \<^verbatim>\<open>any\<close> is empty or holds an object together with its dynamic type. The object
  is kept as its bytes.
\<close>

datatype any = Empty_any | Any (held_type: cxx_type) (held_object: "nat list")

text \<open>
  \<^verbatim>\<open>any_cast<const Scalar&>(a)\<close> throws unless \<^verbatim>\<open>a\<close> holds an object whose dynamic
  type is \<^verbatim>\<open>Scalar\<close>.
\<close>

fun any_cast :: "cxx_type \<Rightarrow> any \<Rightarrow> error + nat list" where
  "any_cast T Empty_any = Inl Bad_any_cast"
| "any_cast T (Any U obj) = (if U = T then Inr obj else Inl Bad_any_cast)"

text \<open>
  \<^verbatim>\<open>sizeof(cl::Buffer)\<close>: the class of the OpenCL C++ bindings holds one
  \<^verbatim>\<open>cl_mem\<close>, a pointer, and the runner builds for 64-bit hosts only. No theorem below
  depends on the value.
\<close>

definition sizeof_cl_Buffer :: nat where
  "sizeof_cl_Buffer = 8"

subsection \<open>Launch configuration components\<close>

text \<open>
  Modelled from the spec: \<^verbatim>\<open>optional_launch_config_components\<close> and its method
  \<^verbatim>\<open>is_sufficient()\<close>, declared in the absent \<^verbatim>\<open>launch_configuration.hpp\<close>.
  "A set of independently-optional geometry components (e.g., grid extents,
  block/work-group extents, dynamic shared-memory size). A configuration is sufficient
  only when every component required to launch is present." The spec names these three
  components and marks none of them as optional for a launch, so all three are required
  here. The theorems on \<^verbatim>\<open>make_launch_config\<close> use \<open>is_sufficient\<close> as a predicate
  only and hold for any other reading of it.
\<close>

type_synonym dimensions = "nat \<times> nat \<times> nat"

record optional_launch_config_components =
  grid_dimensions :: "dimensions option"
  block_dimensions :: "dimensions option"
  dynamic_shared_memory_size :: "nat option"

definition is_sufficient :: "optional_launch_config_components \<Rightarrow> bool" where
  "is_sufficient c \<longleftrightarrow>
     grid_dimensions c \<noteq> None \<and> block_dimensions c \<noteq> None \<and>
     dynamic_shared_memory_size c \<noteq> None"

subsection \<open>Command-line options and the execution context\<close>

text \<open>
  \<^verbatim>\<open>kernel_inspecific_cmdline_options_t\<close> of
  \<^verbatim>\<open>src/kernel_inspecific_cmdline_options.hpp\<close>. Paths are strings; the members \<^verbatim>\<open>input\<close> and \<^verbatim>\<open>output\<close> of
  \<^verbatim>\<open>buffer_base_paths\<close> carry the suffix \<open>_path\<close>. The fields
  \<^verbatim>\<open>gpu_device_id\<close>, \<^verbatim>\<open>preprocessor_definitions\<close>,
  \<^verbatim>\<open>include_dir_paths\<close> and \<^verbatim>\<open>preinclude_files\<close> have types declared in
  absent headers and are read by no function modelled here; they are left out.
\<close>

record kernel_options =
  key :: string
  function_name :: string
  source_file :: string

record buffer_base_paths_options =
  input_path :: string
  output_path :: string

record kernel_inspecific_cmdline_options =
  kernel :: kernel_options
  gpu_ecosystem :: execution_ecosystem
  platform_id :: "int option"
  num_runs :: nat
  buffer_base_paths :: buffer_base_paths_options
  kernel_sources_base_path :: string
  zero_output_buffers :: bool
  write_output_buffers_to_files :: bool
  write_ptx_to_file :: bool
  generate_line_info :: bool
  compile_only :: bool
  compile_in_debug_mode :: bool
  ptx_output_file :: string
  language_standard :: string
  time_with_events :: bool
  forced_launch_config_components :: optional_launch_config_components

text \<open>
  Modelled from the spec: \<^verbatim>\<open>execution_context_t\<close>, declared in the absent
  \<^verbatim>\<open>execution_context.hpp\<close>. "Holds the Ecosystem, a mapping from buffer name to
  backend-specific device handle for inputs and for outputs separately, a mapping from
  scalar name to a type-erased value, and the resolved command-line options (including any
  forced launch-configuration components)." The member names are those
  \<^verbatim>\<open>kernel_adapter.hpp\<close> reads: \<^verbatim>\<open>context.ecosystem\<close>,
  \<^verbatim>\<open>context.buffers.device_side.inputs\<close>,
  \<^verbatim>\<open>context.buffers.device_side.outputs\<close>,
  \<^verbatim>\<open>context.scalar_input_arguments.typed\<close> and
  \<^verbatim>\<open>context.parsed_inspecific_options\<close>. A device handle has the two members
  \<^verbatim>\<open>cuda\<close> (a memory region: start and size) and \<^verbatim>\<open>opencl\<close> (a
  \<^verbatim>\<open>cl::Buffer\<close>: its \<^verbatim>\<open>cl_mem\<close>).
\<close>

record device_buffer =
  cuda_region :: "nat \<times> nat"
  opencl_buffer :: nat

type_synonym device_buffers_map = "key \<rightharpoonup> device_buffer"

record device_side_buffers =
  inputs :: device_buffers_map
  outputs :: device_buffers_map

record context_buffers =
  device_side :: device_side_buffers

type_synonym scalar_arguments_map = "key \<rightharpoonup> any"

record context_scalar_arguments =
  typed :: scalar_arguments_map

record execution_context =
  ecosystem :: execution_ecosystem
  buffers :: context_buffers
  scalar_input_arguments :: context_scalar_arguments
  parsed_inspecific_options :: kernel_inspecific_cmdline_options

subsection \<open>The adapter\<close>

record single_buffer_details =
  name :: string
  direction :: parameter_direction
  description :: string

text \<open>
  An adapter is the record of the virtual members that the methods modelled here call.
  \<^verbatim>\<open>marshal_kernel_arguments_inner\<close> is pure virtual; it works on the accumulator
  passed by reference. \<^verbatim>\<open>deduce_launch_config\<close> is the hook whose invocation the
  specification observes with a probe; its model takes and returns a state \<open>'s\<close> for
  whatever an override touches besides its result (a call counter, for instance).
\<close>

record 's kernel_adapter =
  buffer_details :: "single_buffer_details list"
  marshal_kernel_arguments_inner ::
    "marshalled_arguments \<Rightarrow> execution_context \<Rightarrow> marshalling_result"
  deduce_launch_config ::
    "execution_context \<Rightarrow> 's \<Rightarrow> (error + optional_launch_config_components) \<times> 's"

text \<open>
  \<^verbatim>\<open>marshal_kernel_arguments\<close>: a default-constructed accumulator goes through the
  inner hook; under CUDA a \<^verbatim>\<open>nullptr\<close> is pushed after it. An exception of the hook
  leaves the method, and the local accumulator is gone.
\<close>

definition marshal_kernel_arguments ::
    "'s kernel_adapter \<Rightarrow> execution_context \<Rightarrow> error + marshalled_arguments" where
  "marshal_kernel_arguments adapter context =
     (case marshal_kernel_arguments_inner adapter \<lparr>pointers = [], sizes = []\<rparr> context of
        Inl (e, _) \<Rightarrow> Inl e
      | Inr argument_ptrs_and_maybe_sizes \<Rightarrow>
          Inr (if ecosystem context = cuda
               then argument_ptrs_and_maybe_sizes
                      \<lparr>pointers := pointers argument_ptrs_and_maybe_sizes @ [None]\<rparr>
               else argument_ptrs_and_maybe_sizes))"

text \<open>
  The base implementation of \<^verbatim>\<open>deduce_launch_config\<close>: it throws, and touches
  nothing else.
\<close>

definition deduce_launch_config_base ::
    "execution_context \<Rightarrow> 's \<Rightarrow> (error + optional_launch_config_components) \<times> 's" where
  "deduce_launch_config_base context s =
     (Inl (Runtime_error
        (''Unable to deduce launch configuration - please specify all launch configuration components '' @
         ''explicitly using the command-line'')), s)"

definition make_launch_config ::
    "'s kernel_adapter \<Rightarrow> execution_context \<Rightarrow> 's \<Rightarrow>
     (error + optional_launch_config_components) \<times> 's" where
  "make_launch_config adapter context s =
     (let forced = forced_launch_config_components (parsed_inspecific_options context)
      in if is_sufficient forced then (Inr forced, s)
         else deduce_launch_config adapter context s)"

subsection \<open>Buffer names\<close>

text \<open>
  Modelled from the spec: \<^verbatim>\<open>util::filter\<close> of the absent
  \<^verbatim>\<open>util/functional.hpp\<close> and \<^verbatim>\<open>util::union_\<close> of the absent
  \<^verbatim>\<open>util/miscellany.hpp\<close>. "Derive buffer name sets filtered by direction, and
  the union of names for a pair of directions": the first keeps the elements of a container
  that satisfy the predicate, the second is the union of two sets. A
  \<^verbatim>\<open>parameter_name_set\<close> is a set of strings.
\<close>

definition util_filter :: "'a list \<Rightarrow> ('a \<Rightarrow> bool) \<Rightarrow> 'a list" where
  "util_filter container pred = filter pred container"

definition util_union :: "'a set \<Rightarrow> 'a set \<Rightarrow> 'a set" where
  "util_union set_1 set_2 = set_1 \<union> set_2"

text \<open>
  \<^verbatim>\<open>buffer_names_from_details\<close>: \<^verbatim>\<open>std::transform\<close> through an inserter
  puts the name of every element into an initially empty set.
\<close>

definition buffer_names_from_details :: "single_buffer_details list \<Rightarrow> string set" where
  "buffer_names_from_details bds = set (map name bds)"

text \<open>The base implementation of the virtual \<^verbatim>\<open>buffer_names(direction)\<close>.\<close>

definition buffer_names :: "'s kernel_adapter \<Rightarrow> parameter_direction \<Rightarrow> string set" where
  "buffer_names adapter dir =
     (let bds = buffer_details adapter;
          requested_dir_only = util_filter bds (\<lambda>sbd. direction sbd = dir)
      in buffer_names_from_details requested_dir_only)"

text \<open>
  The free function \<^verbatim>\<open>buffer_names(adapter, dir_1, dir_2)\<close>; HOL has no
  overloading by arity, hence the suffix.
\<close>

definition buffer_names_2 ::
    "'s kernel_adapter \<Rightarrow> parameter_direction \<Rightarrow> parameter_direction \<Rightarrow> string set" where
  "buffer_names_2 adapter dir_1 dir_2 =
     util_union (buffer_names adapter dir_1) (buffer_names adapter dir_2)"

subsection \<open>The marshalling helpers\<close>

text \<open>
  \<^verbatim>\<open>push_back_buffer\<close>. The map is chosen by the direction; \<^verbatim>\<open>at()\<close> throws
  \<^verbatim>\<open>std::out_of_range\<close> for an absent key, before anything is pushed.
\<close>

definition push_back_buffer ::
    "marshalled_arguments \<Rightarrow> execution_context \<Rightarrow> parameter_direction \<Rightarrow> string \<Rightarrow>
     marshalling_result" where
  "push_back_buffer argument_ptrs context dir buffer_argument_name =
     (let (map_id, buffer_map) =
            (if dir = In
             then (Device_side_inputs, inputs (device_side (buffers context)))
             else (Device_side_outputs, outputs (device_side (buffers context))))
      in if ecosystem context = cuda
         then (case buffer_map buffer_argument_name of
                 None \<Rightarrow> Inl (Out_of_range, argument_ptrs)
               | Some _ \<Rightarrow>
                   Inr (argument_ptrs
                     \<lparr>pointers := pointers argument_ptrs @
                        [Some (Cuda_data_of map_id buffer_argument_name)]\<rparr>))
         else (case buffer_map buffer_argument_name of
                 None \<Rightarrow> Inl (Out_of_range, argument_ptrs)
               | Some _ \<Rightarrow>
                   Inr (argument_ptrs
                     \<lparr>pointers := pointers argument_ptrs @
                        [Some (Opencl_of map_id buffer_argument_name)],
                      sizes := sizes argument_ptrs @ [sizeof_cl_Buffer]\<rparr>)))"

text \<open>
  \<^verbatim>\<open>push_back_scalar<Scalar>\<close>. The argument of \<^verbatim>\<open>push_back\<close> is evaluated
  first: \<^verbatim>\<open>at()\<close>, then \<^verbatim>\<open>any_cast\<close>; either may throw, and then nothing has
  been pushed.
\<close>

definition push_back_scalar ::
    "cxx_type \<Rightarrow> marshalled_arguments \<Rightarrow> execution_context \<Rightarrow> string \<Rightarrow>
     marshalling_result" where
  "push_back_scalar Scalar argument_ptrs context scalar_argument_name =
     (case typed (scalar_input_arguments context) scalar_argument_name of
        None \<Rightarrow> Inl (Out_of_range, argument_ptrs)
      | Some a \<Rightarrow>
          (case any_cast Scalar a of
             Inl e \<Rightarrow> Inl (e, argument_ptrs)
           | Inr _ \<Rightarrow>
               (let pushed = argument_ptrs
                      \<lparr>pointers := pointers argument_ptrs @
                         [Some (Scalar_of scalar_argument_name)]\<rparr>
                in Inr (if ecosystem context = opencl
                        then pushed\<lparr>sizes := sizes pushed @ [sizeof Scalar]\<rparr>
                        else pushed))))"

text \<open>
  An inner hook that builds its arguments only through the two helpers performs, for a
  given context, a finite sequence of calls to them on the one accumulator; the first
  exception ends it.
\<close>

datatype push_call =
    Push_back_buffer parameter_direction string
  | Push_back_scalar cxx_type string

fun do_push_call ::
    "push_call \<Rightarrow> marshalled_arguments \<Rightarrow> execution_context \<Rightarrow> marshalling_result" where
  "do_push_call (Push_back_buffer dir n) a context = push_back_buffer a context dir n"
| "do_push_call (Push_back_scalar T n) a context = push_back_scalar T a context n"

fun do_push_calls ::
    "push_call list \<Rightarrow> marshalled_arguments \<Rightarrow> execution_context \<Rightarrow> marshalling_result" where
  "do_push_calls [] a context = Inr a"
| "do_push_calls (c # cs) a context =
     (case do_push_call c a context of
        Inl thrown \<Rightarrow> Inl thrown
      | Inr a' \<Rightarrow> do_push_calls cs a' context)"

subsection \<open>An example adapter and two contexts\<close>

text \<open>
  Concrete inputs for the instances below. The adapter declares the buffers \<open>a\<close> (in) and
  \<open>b\<close> (out) of the specification's scenario and a scalar \<open>length\<close>; its inner hook
  pushes them in that order; its deduction supplies the grid dimensions and the shared
  memory size, not the block dimensions, and counts its calls in the state. In the bound
  context every argument is present and the forced launch configuration is complete; in
  the unbound context \<open>b\<close> is not allocated yet and only the block dimensions are forced.
\<close>

definition example_options ::
    "optional_launch_config_components \<Rightarrow> kernel_inspecific_cmdline_options" where
  "example_options forced =
     \<lparr>kernel = \<lparr>key = ''vector_add'', function_name = ''vectorAdd'',
                 source_file = ''vector_add.cu''\<rparr>,
      gpu_ecosystem = cuda, platform_id = None, num_runs = 1,
      buffer_base_paths = \<lparr>input_path = ''.'', output_path = ''.''\<rparr>,
      kernel_sources_base_path = ''.'',
      zero_output_buffers = False, write_output_buffers_to_files = True,
      write_ptx_to_file = False, generate_line_info = True, compile_only = False,
      compile_in_debug_mode = False, ptx_output_file = '''', language_standard = '''',
      time_with_events = True, forced_launch_config_components = forced\<rparr>"

definition example_context ::
    "execution_ecosystem \<Rightarrow> device_buffers_map \<Rightarrow> device_buffers_map \<Rightarrow>
     scalar_arguments_map \<Rightarrow> optional_launch_config_components \<Rightarrow> execution_context" where
  "example_context eco ins outs scalars forced =
     \<lparr>ecosystem = eco,
      buffers = \<lparr>device_side = \<lparr>inputs = ins, outputs = outs\<rparr>\<rparr>,
      scalar_input_arguments = \<lparr>typed = scalars\<rparr>,
      parsed_inspecific_options = example_options forced\<rparr>"

definition size_t :: cxx_type where
  "size_t = Cxx_type ''unsigned long'' 8"

definition example_adapter :: "nat kernel_adapter" where
  "example_adapter =
     \<lparr>buffer_details =
        [\<lparr>name = ''a'', direction = In, description = ''input''\<rparr>,
         \<lparr>name = ''b'', direction = Out, description = ''output''\<rparr>],
      marshal_kernel_arguments_inner =
        do_push_calls
          [Push_back_buffer In ''a'', Push_back_buffer Out ''b'',
           Push_back_scalar size_t ''length''],
      deduce_launch_config =
        (\<lambda>context calls.
           (Inr \<lparr>grid_dimensions = Some (4, 1, 1), block_dimensions = None,
                 dynamic_shared_memory_size = Some 0\<rparr>, Suc calls))\<rparr>"

definition example_buffer :: device_buffer where
  "example_buffer = \<lparr>cuda_region = (4096, 1024), opencl_buffer = 1\<rparr>"

definition bound_context :: "execution_ecosystem \<Rightarrow> execution_context" where
  "bound_context eco =
     example_context eco [''a'' \<mapsto> example_buffer] [''b'' \<mapsto> example_buffer]
       [''length'' \<mapsto> Any size_t [0, 1, 0, 0, 0, 0, 0, 0]]
       \<lparr>grid_dimensions = Some (2, 1, 1), block_dimensions = Some (128, 1, 1),
        dynamic_shared_memory_size = Some 0\<rparr>"

definition unbound_context :: "execution_ecosystem \<Rightarrow> execution_context" where
  "unbound_context eco =
     example_context eco [''a'' \<mapsto> example_buffer] Map.empty
       [''length'' \<mapsto> Any size_t [0, 1, 0, 0, 0, 0, 0, 0]]
       \<lparr>grid_dimensions = None, block_dimensions = Some (256, 1, 1),
        dynamic_shared_memory_size = None\<rparr>"

lemmas example_defs =
  example_adapter_def bound_context_def unbound_context_def example_context_def
  example_options_def example_buffer_def size_t_def

section \<open>Properties\<close>

subsection \<open>The marshalling helpers unfolded by direction\<close>

lemma push_back_buffer_In:
  "push_back_buffer a context In n =
     (case inputs (device_side (buffers context)) n of
        None \<Rightarrow> Inl (Out_of_range, a)
      | Some h \<Rightarrow>
          Inr (if ecosystem context = cuda
               then a\<lparr>pointers := pointers a @ [Some (Cuda_data_of Device_side_inputs n)]\<rparr>
               else a\<lparr>pointers := pointers a @ [Some (Opencl_of Device_side_inputs n)],
                      sizes := sizes a @ [sizeof_cl_Buffer]\<rparr>))"
  by (simp add: push_back_buffer_def split: option.splits)

lemma push_back_buffer_not_In:
  "dir \<noteq> In \<Longrightarrow> push_back_buffer a context dir n =
     (case outputs (device_side (buffers context)) n of
        None \<Rightarrow> Inl (Out_of_range, a)
      | Some h \<Rightarrow>
          Inr (if ecosystem context = cuda
               then a\<lparr>pointers := pointers a @ [Some (Cuda_data_of Device_side_outputs n)]\<rparr>
               else a\<lparr>pointers := pointers a @ [Some (Opencl_of Device_side_outputs n)],
                      sizes := sizes a @ [sizeof_cl_Buffer]\<rparr>))"
  by (simp add: push_back_buffer_def split: option.splits)

subsection \<open>Marshalling the kernel arguments\<close>

text \<open>
  C1: under CUDA, whenever the inner hook returns, with any number of arguments pushed
  (none included), \<^verbatim>\<open>marshal_kernel_arguments\<close> returns the hook's pointer sequence
  followed by exactly one null pointer, which is its last element; the size sequence is
  the hook's.
\<close>

theorem marshal_kernel_arguments_cuda_null_terminated:
  assumes "ecosystem context = cuda"
    and "marshal_kernel_arguments_inner adapter \<lparr>pointers = [], sizes = []\<rparr> context = Inr a"
  shows "\<exists>r. marshal_kernel_arguments adapter context = Inr r \<and>
           pointers r = pointers a @ [None] \<and> sizes r = sizes a \<and>
           last (pointers r) = None \<and> length (pointers r) = Suc (length (pointers a))"
  using assms by (simp add: marshal_kernel_arguments_def)

text \<open>
  An instance of C1: the example adapter in the bound CUDA context.
\<close>

theorem marshal_kernel_arguments_cuda_null_terminated_witness:
  "ecosystem (bound_context cuda) = cuda \<and>
   marshal_kernel_arguments example_adapter (bound_context cuda) =
     Inr \<lparr>pointers = [Some (Cuda_data_of Device_side_inputs ''a''),
                      Some (Cuda_data_of Device_side_outputs ''b''),
                      Some (Scalar_of ''length''), None],
          sizes = []\<rparr>"
proof -
  have h1: "ecosystem (bound_context cuda) = cuda"
    by (simp add: example_defs)
  have h2: "marshal_kernel_arguments_inner example_adapter \<lparr>pointers = [], sizes = []\<rparr>
              (bound_context cuda) =
            Inr \<lparr>pointers = [Some (Cuda_data_of Device_side_inputs ''a''),
                      Some (Cuda_data_of Device_side_outputs ''b''),
                      Some (Scalar_of ''length'')], sizes = []\<rparr>"
    by (simp add: example_defs push_back_buffer_def push_back_scalar_def)
  from marshal_kernel_arguments_cuda_null_terminated [OF h1 h2] h1 show ?thesis
    by auto
qed

text \<open>
  Under OpenCL one call of a helper that returns has appended one non-null pointer and
  one size, the same pair it appends to an empty accumulator.
\<close>

lemma do_push_call_opencl:
  assumes "ecosystem context = opencl" and "do_push_call c a context = Inr a'"
  shows "\<exists>p s. a' = a\<lparr>pointers := pointers a @ [Some p], sizes := sizes a @ [s]\<rparr> \<and>
           do_push_call c \<lparr>pointers = [], sizes = []\<rparr> context =
             Inr \<lparr>pointers = [Some p], sizes = [s]\<rparr>"
proof (cases c)
  case (Push_back_buffer dir n)
  with assms show ?thesis
    by (cases "dir = In")
       (auto simp: push_back_buffer_In push_back_buffer_not_In split: option.splits)
next
  case (Push_back_scalar T n)
  with assms show ?thesis
    by (auto simp: push_back_scalar_def split: option.splits sum.splits)
qed

lemma do_push_calls_opencl:
  assumes "ecosystem context = opencl"
  shows "do_push_calls cs a context = Inr r \<Longrightarrow>
         \<exists>ps ss. r = a\<lparr>pointers := pointers a @ ps, sizes := sizes a @ ss\<rparr> \<and>
           length ps = length cs \<and> length ss = length cs \<and> None \<notin> set ps \<and>
           map (\<lambda>c. do_push_call c \<lparr>pointers = [], sizes = []\<rparr> context) cs =
             map (\<lambda>(p, s). Inr \<lparr>pointers = [p], sizes = [s]\<rparr>) (zip ps ss)"
proof (induction cs arbitrary: a)
  case Nil
  then show ?case by simp
next
  case (Cons c cs)
  from Cons.prems obtain a1 where c: "do_push_call c a context = Inr a1"
    and cs: "do_push_calls cs a1 context = Inr r"
    by (auto split: sum.splits)
  from do_push_call_opencl [OF assms c] obtain p s where
    a1: "a1 = a\<lparr>pointers := pointers a @ [Some p], sizes := sizes a @ [s]\<rparr>" and
    alone: "do_push_call c \<lparr>pointers = [], sizes = []\<rparr> context =
             Inr \<lparr>pointers = [Some p], sizes = [s]\<rparr>"
    by blast
  from Cons.IH [OF cs] obtain ps ss where
    r: "r = a1\<lparr>pointers := pointers a1 @ ps, sizes := sizes a1 @ ss\<rparr>" and
    len: "length ps = length cs" "length ss = length cs" and nn: "None \<notin> set ps" and
    each: "map (\<lambda>c. do_push_call c \<lparr>pointers = [], sizes = []\<rparr> context) cs =
             map (\<lambda>(p, s). Inr \<lparr>pointers = [p], sizes = [s]\<rparr>) (zip ps ss)"
    by blast
  show ?case
  proof (intro exI conjI)
    show "r = a\<lparr>pointers := pointers a @ (Some p # ps), sizes := sizes a @ (s # ss)\<rparr>"
      using r a1 by simp
    show "length (Some p # ps) = length (c # cs)" using len by simp
    show "length (s # ss) = length (c # cs)" using len by simp
    show "None \<notin> set (Some p # ps)" using nn by simp
    show "map (\<lambda>c. do_push_call c \<lparr>pointers = [], sizes = []\<rparr> context) (c # cs) =
            map (\<lambda>(p, s). Inr \<lparr>pointers = [p], sizes = [s]\<rparr>) (zip (Some p # ps) (s # ss))"
      using alone each by simp
  qed
qed

text \<open>
  C2: under OpenCL, for an adapter whose inner hook is a sequence \<open>cs\<close> of calls to
  \<^verbatim>\<open>push_back_buffer\<close> and \<^verbatim>\<open>push_back_scalar\<close>,
  \<^verbatim>\<open>marshal_kernel_arguments\<close> returns what the hook built, with nothing appended,
  or throws what the hook throws. In a returned result the pointer and the size sequence
  have the same length, one entry for each call; no pointer is null; and the entries are in
  matching order: the i-th pointer and the i-th size are the pair that the i-th call alone
  pushes.
\<close>

theorem marshal_kernel_arguments_opencl_parallel:
  assumes "ecosystem context = opencl"
    and "marshal_kernel_arguments_inner adapter \<lparr>pointers = [], sizes = []\<rparr> context =
           do_push_calls cs \<lparr>pointers = [], sizes = []\<rparr> context"
  shows "marshal_kernel_arguments adapter context =
           (case do_push_calls cs \<lparr>pointers = [], sizes = []\<rparr> context of
              Inl (e, _) \<Rightarrow> Inl e | Inr a \<Rightarrow> Inr a) \<and>
         (\<forall>r. marshal_kernel_arguments adapter context = Inr r \<longrightarrow>
            length (pointers r) = length (sizes r) \<and> length (pointers r) = length cs \<and>
            None \<notin> set (pointers r) \<and>
            map (\<lambda>c. do_push_call c \<lparr>pointers = [], sizes = []\<rparr> context) cs =
              map (\<lambda>(p, s). Inr \<lparr>pointers = [p], sizes = [s]\<rparr>)
                (zip (pointers r) (sizes r)))"
proof (intro conjI allI impI)
  show eq: "marshal_kernel_arguments adapter context =
           (case do_push_calls cs \<lparr>pointers = [], sizes = []\<rparr> context of
              Inl (e, _) \<Rightarrow> Inl e | Inr a \<Rightarrow> Inr a)"
    using assms by (simp add: marshal_kernel_arguments_def split: sum.splits)
  fix r assume "marshal_kernel_arguments adapter context = Inr r"
  with eq have "do_push_calls cs \<lparr>pointers = [], sizes = []\<rparr> context = Inr r"
    by (auto split: sum.splits)
  from do_push_calls_opencl [OF assms(1) this] obtain ps ss where
    "r = \<lparr>pointers = ps, sizes = ss\<rparr>" "length ps = length cs" "length ss = length cs"
    "None \<notin> set ps"
    "map (\<lambda>c. do_push_call c \<lparr>pointers = [], sizes = []\<rparr> context) cs =
       map (\<lambda>(p, s). Inr \<lparr>pointers = [p], sizes = [s]\<rparr>) (zip ps ss)"
    by auto
  then show "length (pointers r) = length (sizes r)" "length (pointers r) = length cs"
    "None \<notin> set (pointers r)"
    "map (\<lambda>c. do_push_call c \<lparr>pointers = [], sizes = []\<rparr> context) cs =
       map (\<lambda>(p, s). Inr \<lparr>pointers = [p], sizes = [s]\<rparr>) (zip (pointers r) (sizes r))"
    by simp_all
qed

text \<open>
  An instance of C2: the example adapter in the bound OpenCL context.
\<close>

theorem marshal_kernel_arguments_opencl_parallel_witness:
  "ecosystem (bound_context opencl) = opencl \<and>
   marshal_kernel_arguments example_adapter (bound_context opencl) =
     Inr \<lparr>pointers = [Some (Opencl_of Device_side_inputs ''a''),
                      Some (Opencl_of Device_side_outputs ''b''),
                      Some (Scalar_of ''length'')],
          sizes = [sizeof_cl_Buffer, sizeof_cl_Buffer, 8]\<rparr> \<and>
   length [Some (Opencl_of Device_side_inputs ''a''),
           Some (Opencl_of Device_side_outputs ''b''),
           Some (Scalar_of ''length'')] =
     length [sizeof_cl_Buffer, sizeof_cl_Buffer, 8]"
proof -
  let ?cs = "[Push_back_buffer In ''a'', Push_back_buffer Out ''b'',
              Push_back_scalar size_t ''length'']"
  have h1: "ecosystem (bound_context opencl) = opencl"
    by (simp add: example_defs)
  have h2: "marshal_kernel_arguments_inner example_adapter \<lparr>pointers = [], sizes = []\<rparr>
              (bound_context opencl) =
            do_push_calls ?cs \<lparr>pointers = [], sizes = []\<rparr> (bound_context opencl)"
    by (simp add: example_adapter_def)
  have run: "do_push_calls ?cs \<lparr>pointers = [], sizes = []\<rparr> (bound_context opencl) =
     Inr \<lparr>pointers = [Some (Opencl_of Device_side_inputs ''a''),
                      Some (Opencl_of Device_side_outputs ''b''),
                      Some (Scalar_of ''length'')],
          sizes = [sizeof_cl_Buffer, sizeof_cl_Buffer, 8]\<rparr>"
    by (simp add: example_defs push_back_buffer_def push_back_scalar_def)
  from marshal_kernel_arguments_opencl_parallel [OF h1 h2] run h1 show ?thesis
    by simp
qed

subsection \<open>The launch configuration\<close>

text \<open>
  C3: when the forced launch configuration components are sufficient,
  \<^verbatim>\<open>make_launch_config\<close> returns them as they are, and the adapter's
  \<^verbatim>\<open>deduce_launch_config\<close> is not invoked: the state that an invocation would have
  gone through comes back untouched, whatever the hook is.
\<close>

theorem make_launch_config_sufficient_forced:
  assumes "is_sufficient (forced_launch_config_components (parsed_inspecific_options context))"
  shows "make_launch_config adapter context s =
           (Inr (forced_launch_config_components (parsed_inspecific_options context)), s)"
  using assms by (simp add: make_launch_config_def)

text \<open>
  An instance of C3: the example adapter's deduction counts its calls and would give a
  different configuration; with the complete forced configuration of the bound context the
  counter stays at 0.
\<close>

theorem make_launch_config_sufficient_forced_witness:
  "is_sufficient (forced_launch_config_components
     (parsed_inspecific_options (bound_context cuda))) \<and>
   make_launch_config example_adapter (bound_context cuda) 0 =
     (Inr \<lparr>grid_dimensions = Some (2, 1, 1), block_dimensions = Some (128, 1, 1),
           dynamic_shared_memory_size = Some 0\<rparr>, 0) \<and>
   deduce_launch_config example_adapter (bound_context cuda) 0 =
     (Inr \<lparr>grid_dimensions = Some (4, 1, 1), block_dimensions = None,
           dynamic_shared_memory_size = Some 0\<rparr>, 1)"
proof -
  have h: "is_sufficient (forced_launch_config_components
     (parsed_inspecific_options (bound_context cuda)))"
    by (simp add: example_defs is_sufficient_def)
  from make_launch_config_sufficient_forced [OF h, of example_adapter 0] h show ?thesis
    by (simp add: example_defs)
qed

text \<open>
  C4: when the forced components are not sufficient, an adapter that keeps the base
  \<^verbatim>\<open>deduce_launch_config\<close> makes \<^verbatim>\<open>make_launch_config\<close> throw the
  "Unable to deduce launch configuration" runtime error, and an adapter whose deduction
  throws makes it throw that same exception; in neither case is a configuration returned.
\<close>

theorem make_launch_config_unable_to_deduce:
  assumes "\<not> is_sufficient (forced_launch_config_components (parsed_inspecific_options context))"
  shows "(deduce_launch_config adapter = deduce_launch_config_base \<longrightarrow>
            make_launch_config adapter context s =
              (Inl (Runtime_error
                 (''Unable to deduce launch configuration - please specify all launch configuration components '' @
                  ''explicitly using the command-line'')), s)) \<and>
         (\<forall>e s'. deduce_launch_config adapter context s = (Inl e, s') \<longrightarrow>
            make_launch_config adapter context s = (Inl e, s'))"
  using assms by (simp add: make_launch_config_def deduce_launch_config_base_def)

text \<open>
  An instance of C4: the example adapter with the base deduction, in the unbound context,
  where only the block dimensions are forced.
\<close>

theorem make_launch_config_unable_to_deduce_witness:
  "\<not> is_sufficient (forced_launch_config_components
     (parsed_inspecific_options (unbound_context cuda))) \<and>
   make_launch_config (example_adapter\<lparr>deduce_launch_config := deduce_launch_config_base\<rparr>)
     (unbound_context cuda) (0::nat) =
     (Inl (Runtime_error
        (''Unable to deduce launch configuration - please specify all launch configuration components '' @
         ''explicitly using the command-line'')), 0)"
proof -
  have h: "\<not> is_sufficient (forced_launch_config_components
     (parsed_inspecific_options (unbound_context cuda)))"
    by (simp add: example_defs is_sufficient_def)
  from make_launch_config_unable_to_deduce
    [OF h, of "example_adapter\<lparr>deduce_launch_config := deduce_launch_config_base\<rparr>" 0] h
  show ?thesis
    by simp
qed

text \<open>
  C5, as stated, fails: in the unbound context only the block dimensions are forced, the
  example adapter deduces the other two components, and the configuration returned by
  \<^verbatim>\<open>make_launch_config\<close> is the deduced one, without the forced block dimensions.
\<close>

theorem make_launch_config_merge_counterexample:
  "block_dimensions (forced_launch_config_components
     (parsed_inspecific_options (unbound_context cuda))) = Some (256, 1, 1) \<and>
   grid_dimensions (forced_launch_config_components
     (parsed_inspecific_options (unbound_context cuda))) = None \<and>
   dynamic_shared_memory_size (forced_launch_config_components
     (parsed_inspecific_options (unbound_context cuda))) = None \<and>
   deduce_launch_config example_adapter (unbound_context cuda) 0 =
     (Inr \<lparr>grid_dimensions = Some (4, 1, 1), block_dimensions = None,
           dynamic_shared_memory_size = Some 0\<rparr>, 1) \<and>
   make_launch_config example_adapter (unbound_context cuda) 0 =
     (Inr \<lparr>grid_dimensions = Some (4, 1, 1), block_dimensions = None,
           dynamic_shared_memory_size = Some 0\<rparr>, 1) \<and>
   make_launch_config example_adapter (unbound_context cuda) 0 \<noteq>
     (Inr \<lparr>grid_dimensions = Some (4, 1, 1), block_dimensions = Some (256, 1, 1),
           dynamic_shared_memory_size = Some 0\<rparr>, 1)"
  by (simp add: example_defs make_launch_config_def is_sufficient_def)

text \<open>
  C5, amended: when the forced components are not sufficient and the adapter's
  \<^verbatim>\<open>deduce_launch_config\<close> returns a configuration, \<^verbatim>\<open>make_launch_config\<close>
  returns exactly that configuration; it merges no forced component into it.
\<close>

theorem make_launch_config_insufficient_is_deduced:
  assumes "\<not> is_sufficient (forced_launch_config_components (parsed_inspecific_options context))"
    and "deduce_launch_config adapter context s = (Inr deduced, s')"
  shows "make_launch_config adapter context s = (Inr deduced, s')"
  using assms by (simp add: make_launch_config_def)

text \<open>
  An instance of the amended C5, in the unbound context.
\<close>

theorem make_launch_config_insufficient_is_deduced_witness:
  "\<not> is_sufficient (forced_launch_config_components
     (parsed_inspecific_options (unbound_context opencl))) \<and>
   make_launch_config example_adapter (unbound_context opencl) 7 =
     (Inr \<lparr>grid_dimensions = Some (4, 1, 1), block_dimensions = None,
           dynamic_shared_memory_size = Some 0\<rparr>, 8)"
proof -
  have h: "\<not> is_sufficient (forced_launch_config_components
     (parsed_inspecific_options (unbound_context opencl)))"
    by (simp add: example_defs is_sufficient_def)
  have d: "deduce_launch_config example_adapter (unbound_context opencl) 7 =
     (Inr \<lparr>grid_dimensions = Some (4, 1, 1), block_dimensions = None,
           dynamic_shared_memory_size = Some 0\<rparr>, 8)"
    by (simp add: example_adapter_def)
  from make_launch_config_insufficient_is_deduced [OF h d] h show ?thesis
    by simp
qed

subsection \<open>Pushing buffers and scalars\<close>

text \<open>
  C6: \<^verbatim>\<open>push_back_buffer\<close> with direction \<open>In\<close> looks the name up in the
  device-side input map, with direction \<open>Out\<close> or \<open>InOut\<close> in the device-side output
  map; when the name is found there, the call returns and has appended the address of that
  map's handle to the pointer sequence.
\<close>

theorem push_back_buffer_map_by_direction:
  "(dir = In \<longrightarrow> inputs (device_side (buffers context)) n = Some h \<longrightarrow>
      (\<exists>a'. push_back_buffer a context dir n = Inr a' \<and>
            pointers a' = pointers a @
              [Some (if ecosystem context = cuda then Cuda_data_of Device_side_inputs n
                     else Opencl_of Device_side_inputs n)])) \<and>
   (dir = Out \<or> dir = InOut \<longrightarrow> outputs (device_side (buffers context)) n = Some h \<longrightarrow>
      (\<exists>a'. push_back_buffer a context dir n = Inr a' \<and>
            pointers a' = pointers a @
              [Some (if ecosystem context = cuda then Cuda_data_of Device_side_outputs n
                     else Opencl_of Device_side_outputs n)]))"
  by (auto simp: push_back_buffer_In push_back_buffer_not_In)

text \<open>
  An instance of C6: \<open>a\<close> as an input and \<open>b\<close> as an in-out buffer in the bound CUDA
  context; \<open>b\<close> is in the output map only.
\<close>

theorem push_back_buffer_map_by_direction_witness:
  "inputs (device_side (buffers (bound_context cuda))) ''a'' = Some example_buffer \<and>
   outputs (device_side (buffers (bound_context cuda))) ''b'' = Some example_buffer \<and>
   inputs (device_side (buffers (bound_context cuda))) ''b'' = None \<and>
   (\<exists>a'. push_back_buffer \<lparr>pointers = [], sizes = []\<rparr> (bound_context cuda) In ''a'' = Inr a' \<and>
         pointers a' = [Some (Cuda_data_of Device_side_inputs ''a'')]) \<and>
   (\<exists>a'. push_back_buffer \<lparr>pointers = [], sizes = []\<rparr> (bound_context cuda) InOut ''b'' = Inr a' \<and>
         pointers a' = [Some (Cuda_data_of Device_side_outputs ''b'')])"
proof -
  have i: "inputs (device_side (buffers (bound_context cuda))) ''a'' = Some example_buffer"
    and o: "outputs (device_side (buffers (bound_context cuda))) ''b'' = Some example_buffer"
    and n: "inputs (device_side (buffers (bound_context cuda))) ''b'' = None"
    and e: "ecosystem (bound_context cuda) = cuda"
    by (simp_all add: bound_context_def example_context_def)
  from push_back_buffer_map_by_direction
         [of In "bound_context cuda" "''a''" example_buffer "\<lparr>pointers = [], sizes = []\<rparr>"]
       push_back_buffer_map_by_direction
         [of InOut "bound_context cuda" "''b''" example_buffer "\<lparr>pointers = [], sizes = []\<rparr>"]
       i o n e
  show ?thesis by simp
qed

text \<open>
  C7: when the name is absent from the map that the direction selects,
  \<^verbatim>\<open>push_back_buffer\<close> throws \<^verbatim>\<open>std::out_of_range\<close> and the accumulator is
  as it was.
\<close>

theorem push_back_buffer_not_found:
  assumes "(dir = In \<and> inputs (device_side (buffers context)) n = None) \<or>
           ((dir = Out \<or> dir = InOut) \<and> outputs (device_side (buffers context)) n = None)"
  shows "push_back_buffer a context dir n = Inl (Out_of_range, a)"
  using assms by (auto simp: push_back_buffer_In push_back_buffer_not_In)

text \<open>
  An instance of C7, the specification's scenario: buffers \<open>a\<close> (in) and \<open>b\<close> (out)
  declared, only \<open>a\<close> bound; pushing \<open>b\<close> fails, and so does the marshalling of the
  example adapter.
\<close>

theorem push_back_buffer_not_found_witness:
  "outputs (device_side (buffers (unbound_context cuda))) ''b'' = None \<and>
   push_back_buffer \<lparr>pointers = [Some (Cuda_data_of Device_side_inputs ''a'')], sizes = []\<rparr>
     (unbound_context cuda) Out ''b'' =
     Inl (Out_of_range, \<lparr>pointers = [Some (Cuda_data_of Device_side_inputs ''a'')], sizes = []\<rparr>) \<and>
   marshal_kernel_arguments example_adapter (unbound_context cuda) = Inl Out_of_range"
proof -
  have h: "(Out = In \<and> inputs (device_side (buffers (unbound_context cuda))) ''b'' = None) \<or>
           ((Out = Out \<or> Out = InOut) \<and>
            outputs (device_side (buffers (unbound_context cuda))) ''b'' = None)"
    by (simp add: unbound_context_def example_context_def)
  have a: "push_back_buffer \<lparr>pointers = [], sizes = []\<rparr> (unbound_context cuda) In ''a'' =
     Inr \<lparr>pointers = [Some (Cuda_data_of Device_side_inputs ''a'')], sizes = []\<rparr>"
    by (simp add: push_back_buffer_def unbound_context_def example_context_def)
  from push_back_buffer_not_found [OF h] h a show ?thesis
    by (simp add: marshal_kernel_arguments_def example_adapter_def)
qed

text \<open>
  C8: \<^verbatim>\<open>push_back_scalar<T>\<close> throws \<^verbatim>\<open>std::out_of_range\<close> when the name is
  absent from the scalar map and a bad \<^verbatim>\<open>any_cast\<close> when the stored value is empty or
  has a dynamic type other than \<open>T\<close>, leaving the accumulator as it was; when the stored
  value has dynamic type \<open>T\<close> it appends the value's address and, under OpenCL only,
  \<^verbatim>\<open>sizeof(T)\<close>.
\<close>

theorem push_back_scalar_checked:
  "(typed (scalar_input_arguments context) n = None \<longrightarrow>
      push_back_scalar T a context n = Inl (Out_of_range, a)) \<and>
   (typed (scalar_input_arguments context) n = Some Empty_any \<longrightarrow>
      push_back_scalar T a context n = Inl (Bad_any_cast, a)) \<and>
   (typed (scalar_input_arguments context) n = Some (Any U obj) \<and> U \<noteq> T \<longrightarrow>
      push_back_scalar T a context n = Inl (Bad_any_cast, a)) \<and>
   (typed (scalar_input_arguments context) n = Some (Any T obj) \<longrightarrow>
      push_back_scalar T a context n =
        Inr \<lparr>pointers = pointers a @ [Some (Scalar_of n)],
             sizes = (if ecosystem context = opencl then sizes a @ [sizeof T] else sizes a)\<rparr>)"
  by (simp add: push_back_scalar_def)

text \<open>
  An instance of C8: an absent name, a \<^verbatim>\<open>float\<close> asked of a stored
  \<^verbatim>\<open>unsigned long\<close>, and the matching type under OpenCL and under CUDA.
\<close>

theorem push_back_scalar_checked_witness:
  "push_back_scalar size_t \<lparr>pointers = [], sizes = []\<rparr> (bound_context opencl) ''width'' =
     Inl (Out_of_range, \<lparr>pointers = [], sizes = []\<rparr>) \<and>
   push_back_scalar (Cxx_type ''float'' 4) \<lparr>pointers = [], sizes = []\<rparr> (bound_context opencl)
       ''length'' =
     Inl (Bad_any_cast, \<lparr>pointers = [], sizes = []\<rparr>) \<and>
   push_back_scalar size_t \<lparr>pointers = [], sizes = []\<rparr> (bound_context opencl) ''length'' =
     Inr \<lparr>pointers = [Some (Scalar_of ''length'')], sizes = [8]\<rparr> \<and>
   push_back_scalar size_t \<lparr>pointers = [], sizes = []\<rparr> (bound_context cuda) ''length'' =
     Inr \<lparr>pointers = [Some (Scalar_of ''length'')], sizes = []\<rparr>"
proof -
  have t: "typed (scalar_input_arguments (bound_context eco)) ''width'' = None"
    "typed (scalar_input_arguments (bound_context eco)) ''length'' =
       Some (Any size_t [0, 1, 0, 0, 0, 0, 0, 0])"
    "ecosystem (bound_context eco) = eco" for eco
    by (simp_all add: bound_context_def example_context_def)
  have ne: "size_t \<noteq> Cxx_type ''float'' 4"
    by (simp add: size_t_def)
  from push_back_scalar_checked
         [of "bound_context opencl" "''width''" size_t "\<lparr>pointers = [], sizes = []\<rparr>"]
       push_back_scalar_checked
         [of "bound_context opencl" "''length''" "Cxx_type ''float'' 4"
             "\<lparr>pointers = [], sizes = []\<rparr>" size_t "[0, 1, 0, 0, 0, 0, 0, 0]"]
       push_back_scalar_checked
         [of "bound_context opencl" "''length''" size_t
             "\<lparr>pointers = [], sizes = []\<rparr>" size_t "[0, 1, 0, 0, 0, 0, 0, 0]"]
       push_back_scalar_checked
         [of "bound_context cuda" "''length''" size_t
             "\<lparr>pointers = [], sizes = []\<rparr>" size_t "[0, 1, 0, 0, 0, 0, 0, 0]"]
       t ne
  show ?thesis by (simp add: size_t_def)
qed

subsection \<open>Buffer names\<close>

lemma buffer_names_2_image:
  "buffer_names_2 adapter dir_1 dir_2 =
     set (map name (filter (\<lambda>b. direction b = dir_1 \<or> direction b = dir_2)
       (buffer_details adapter)))"
  by (auto simp: buffer_names_2_def buffer_names_def util_union_def util_filter_def
        buffer_names_from_details_def)

text \<open>
  C9: for an adapter whose declared buffer names are unique, the two-direction
  \<^verbatim>\<open>buffer_names\<close> is exactly the set of the declared names whose direction is one
  of the two, and it has as many elements as there are such declarations: no name is
  there twice.
\<close>

theorem buffer_names_2_union:
  assumes "distinct (map name (buffer_details adapter))"
  shows "buffer_names_2 adapter dir_1 dir_2 =
           {name b | b. b \<in> set (buffer_details adapter) \<and>
                        (direction b = dir_1 \<or> direction b = dir_2)} \<and>
         card (buffer_names_2 adapter dir_1 dir_2) =
           length (filter (\<lambda>b. direction b = dir_1 \<or> direction b = dir_2)
             (buffer_details adapter))"
proof
  show "buffer_names_2 adapter dir_1 dir_2 =
           {name b | b. b \<in> set (buffer_details adapter) \<and>
                        (direction b = dir_1 \<or> direction b = dir_2)}"
    by (auto simp: buffer_names_2_image)
  have "distinct (map name (filter (\<lambda>b. direction b = dir_1 \<or> direction b = dir_2)
          (buffer_details adapter)))"
    using assms by (rule distinct_map_filter)
  then show "card (buffer_names_2 adapter dir_1 dir_2) =
           length (filter (\<lambda>b. direction b = dir_1 \<or> direction b = dir_2)
             (buffer_details adapter))"
    unfolding buffer_names_2_image by (simp only: distinct_card length_map)
qed

text \<open>
  An instance of C9: the in and out names of the example adapter.
\<close>

theorem buffer_names_2_union_witness:
  "distinct (map name (buffer_details example_adapter)) \<and>
   buffer_names_2 example_adapter In Out = {''a'', ''b''} \<and>
   card (buffer_names_2 example_adapter In Out) = 2"
proof -
  have h: "distinct (map name (buffer_details example_adapter))"
    by (simp add: example_adapter_def)
  have s: "buffer_names_2 example_adapter In Out = {''a'', ''b''}"
    by (simp add: buffer_names_2_def buffer_names_def util_union_def util_filter_def
          buffer_names_from_details_def example_adapter_def insert_commute del: set_filter)
  from buffer_names_2_union [OF h, of In Out, THEN conjunct2]
  have "card (buffer_names_2 example_adapter In Out) = 2"
    by (simp add: example_adapter_def)
  with h s show ?thesis by simp
qed

subsection \<open>The size sequence under CUDA\<close>

text \<open>
  C10: under CUDA neither \<^verbatim>\<open>push_back_buffer\<close> nor \<^verbatim>\<open>push_back_scalar\<close>
  changes the size sequence: a call that returns has appended exactly one pointer and
  nothing else, and a call that throws has changed nothing.
\<close>

theorem push_back_cuda_frame:
  assumes "ecosystem context = cuda"
  shows "(\<forall>a'. push_back_buffer a context dir n = Inr a' \<longrightarrow>
            sizes a' = sizes a \<and> (\<exists>p. pointers a' = pointers a @ [p])) \<and>
         (\<forall>e a'. push_back_buffer a context dir n = Inl (e, a') \<longrightarrow> a' = a) \<and>
         (\<forall>a'. push_back_scalar T a context m = Inr a' \<longrightarrow>
            sizes a' = sizes a \<and> (\<exists>p. pointers a' = pointers a @ [p])) \<and>
         (\<forall>e a'. push_back_scalar T a context m = Inl (e, a') \<longrightarrow> a' = a)"
  using assms
  by (cases "dir = In")
     (auto simp: push_back_buffer_In push_back_buffer_not_In push_back_scalar_def
           split: option.splits sum.splits)

text \<open>
  An instance of C10: one buffer and one scalar in the bound CUDA context.
\<close>

theorem push_back_cuda_frame_witness:
  "ecosystem (bound_context cuda) = cuda \<and>
   push_back_buffer \<lparr>pointers = [], sizes = []\<rparr> (bound_context cuda) In ''a'' =
     Inr \<lparr>pointers = [Some (Cuda_data_of Device_side_inputs ''a'')], sizes = []\<rparr> \<and>
   push_back_scalar size_t \<lparr>pointers = [], sizes = []\<rparr> (bound_context cuda) ''length'' =
     Inr \<lparr>pointers = [Some (Scalar_of ''length'')], sizes = []\<rparr>"
proof -
  have h: "ecosystem (bound_context cuda) = cuda"
    by (simp add: bound_context_def example_context_def)
  have b: "push_back_buffer \<lparr>pointers = [], sizes = []\<rparr> (bound_context cuda) In ''a'' =
     Inr \<lparr>pointers = [Some (Cuda_data_of Device_side_inputs ''a'')], sizes = []\<rparr>"
    by (simp add: push_back_buffer_def bound_context_def example_context_def)
  have s: "push_back_scalar size_t \<lparr>pointers = [], sizes = []\<rparr> (bound_context cuda) ''length'' =
     Inr \<lparr>pointers = [Some (Scalar_of ''length'')], sizes = []\<rparr>"
    by (simp add: push_back_scalar_def bound_context_def example_context_def)
  from push_back_cuda_frame [OF h, of "\<lparr>pointers = [], sizes = []\<rparr>" In "''a''" size_t "''length''"]
       h b s
  show ?thesis by simp
qed

end
